theory Spec2Isabelle
  imports Complex_Main
begin

section \<open>Values, exceptions and the two stores the scripts work on\<close>

text \<open>
  The pipeline scripts are Python programs that run top to bottom. Each one is embedded as
  a function from its command-line arguments and the store it touches to the store it
  leaves behind, paired with \<open>Inr ()\<close> when the script runs to its last line and with
  \<open>Inl e\<close> when the exception \<open>e\<close> ends it early. A float is read as the real number it
  denotes (comparison of finite floats is the comparison of these numbers); NaN is left out.
\<close>

datatype exn =
    NameError string
  | KeyError string
  | TypeError
  | ValueError
  | FileNotFoundError string
  | IsADirectoryError string
  | WebserviceException
  | JSONDecodeError
  | UnpicklingError
  | ParserError
  | EmptyDataError
  | FormatError

text \<open>
  \<open>FormatError\<close> is the name the specification gives to the failure of the Preprocess stage
  on a dataset without records. Python has no exception of that name, and no script defines
  or raises one; it stands here so that a statement can tell it from the exceptions the
  scripts do raise.
\<close>

type_synonym label = string

text \<open>A cell of a data frame or array: a number or a string.\<close>

datatype cell = Num real | Str string

text \<open>
  A fitted classifier as the scripts use it: the number of features it was fitted on and
  the label it assigns to a row of that many numbers.
\<close>

record classifier =
  n_features :: nat
  decide :: "real list \<Rightarrow> label"

text \<open>
  What a file holds: a pickled file is kept as the value that was dumped, any other file
  as its text.
\<close>

datatype content =
    Pickled_rows "cell list list"
  | Pickled_column "cell list"
  | Pickled_classifier classifier
  | Pickled_float real
  | Text string

record filesystem =
  dirs :: "string list"
  files :: "(string \<times> content) list"

definition path_exists :: "string \<Rightarrow> filesystem \<Rightarrow> bool" where
  "path_exists p fs = (p \<in> set (dirs fs) \<or> p \<in> fst ` set (files fs))"

definition makedirs :: "string \<Rightarrow> filesystem \<Rightarrow> filesystem" where
  "makedirs p fs = fs\<lparr>dirs := p # dirs fs\<rparr>"

text \<open>\<open>if not os.path.exists(d): os.makedirs(d)\<close>\<close>

definition ensure_dir :: "string \<Rightarrow> filesystem \<Rightarrow> filesystem" where
  "ensure_dir d fs = (if \<not> path_exists d fs then makedirs d fs else fs)"

text \<open>\<open>open(p, 'rb')\<close> followed by \<open>pickle.load\<close>: a missing file raises.\<close>

definition open_read :: "string \<Rightarrow> filesystem \<Rightarrow> exn + content" where
  "open_read p fs =
     (case map_of (files fs) p of None \<Rightarrow> Inl (FileNotFoundError p) | Some c \<Rightarrow> Inr c)"

text \<open>\<open>open(p, 'wb')\<close> followed by a dump: the file is created or replaced.\<close>

definition write_file :: "string \<Rightarrow> content \<Rightarrow> filesystem \<Rightarrow> filesystem" where
  "write_file p c fs = fs\<lparr>files := (p, c) # filter (\<lambda>(q, _). q \<noteq> p) (files fs)\<rparr>"

subsection \<open>The model registry and the published endpoints\<close>

text \<open>
  A tag value is whatever the script stored: the accuracy (a float) or the test directory
  (a string). Python's \<open>!=\<close> compares any two values; \<open>>=\<close> between a string and a
  float raises TypeError.
\<close>

datatype tag = TNum real | TStr string

record registered_model =
  reg_path :: string
  reg_name :: string
  reg_tags :: "(string \<times> tag) list"
  reg_description :: string

record webservice =
  ws_name :: string
  ws_models :: "registered_model list"
  ws_entry_script :: string
  scoring_uri :: string

text \<open>The workspace: registrations, newest first, and the published endpoints.\<close>

record workspace =
  models :: "registered_model list"
  services :: "webservice list"

text \<open>\<open>Model(workspace, name)\<close>: the latest registration under the name, or the exception.\<close>

definition Model_get :: "workspace \<Rightarrow> string \<Rightarrow> exn + registered_model" where
  "Model_get w name =
     (case find (\<lambda>m. reg_name m = name) (models w) of
        None \<Rightarrow> Inl WebserviceException
      | Some m \<Rightarrow> Inr m)"

text \<open>\<open>Model.register(...)\<close>: a new registration is added to the workspace.\<close>

definition Model_register ::
  "string \<Rightarrow> string \<Rightarrow> (string \<times> tag) list \<Rightarrow> string \<Rightarrow> workspace
     \<Rightarrow> registered_model \<times> workspace" where
  "Model_register path name tgs descr w =
     (let m = \<lparr>reg_path = path, reg_name = name, reg_tags = tgs, reg_description = descr\<rparr>
      in (m, w\<lparr>models := m # models w\<rparr>))"

text \<open>\<open>Webservice(workspace, name=...)\<close>\<close>

definition Webservice_get :: "workspace \<Rightarrow> string \<Rightarrow> exn + webservice" where
  "Webservice_get w name =
     (case find (\<lambda>s. ws_name s = name) (services w) of
        None \<Rightarrow> Inl WebserviceException
      | Some s \<Rightarrow> Inr s)"

text \<open>\<open>service.delete()\<close>\<close>

definition service_delete :: "webservice \<Rightarrow> workspace \<Rightarrow> workspace" where
  "service_delete s w = w\<lparr>services := filter (\<lambda>t. ws_name t \<noteq> ws_name s) (services w)\<rparr>"

text \<open>
  \<open>Model.deploy(workspace, name, [model], inference_config, aci_config)\<close> followed by
  \<open>wait_for_deployment\<close>: a name that is still published is refused; otherwise the endpoint
  is created under the address \<open>uri\<close> that the platform gives it.
\<close>

definition Model_deploy ::
  "workspace \<Rightarrow> string \<Rightarrow> registered_model list \<Rightarrow> string \<Rightarrow> string
     \<Rightarrow> exn + (webservice \<times> workspace)" where
  "Model_deploy w name ms script uri =
     (if name \<in> ws_name ` set (services w) then Inl WebserviceException
      else
        let s = \<lparr>ws_name = name, ws_models = ms, ws_entry_script = script, scoring_uri = uri\<rparr>
        in Inr (s, w\<lparr>services := s # services w\<rparr>))"

section \<open>deploy.py\<close>

text \<open>
  \<open>register_model\<close> reads the script's global \<open>model_dir\<close>, passed here as the first
  argument; the remaining five are its parameters in the order of the \<open>def\<close>.
\<close>

definition register_model ::
  "string \<Rightarrow> string \<Rightarrow> string \<Rightarrow> real \<Rightarrow> string \<Rightarrow> workspace
     \<Rightarrow> registered_model \<times> workspace" where
  "register_model model_dir output_dir model_name accuracy test_dir w =
     Model_register (model_dir @ ''/model.pt'') ''iris-classification-pipeline''
       [(''accuracy'', TNum accuracy), (''test_data'', TStr test_dir)]
       ''Object recognition classifier'' w"

definition service_name :: string where
  "service_name = ''iris-classification-service''"

definition model_name :: string where
  "model_name = ''iris-classification-pipeline''"

text \<open>\<open>model.tags[k]\<close>\<close>

definition tag_get :: "(string \<times> tag) list \<Rightarrow> string \<Rightarrow> exn + tag" where
  "tag_get tgs k = (case map_of tgs k of None \<Rightarrow> Inl (KeyError k) | Some v \<Rightarrow> Inr v)"

text \<open>\<open>prev_test_dir != test_dir\<close>, the right operand being a string.\<close>

fun py_ne :: "tag \<Rightarrow> string \<Rightarrow> bool" where
  "py_ne (TStr s) t = (s \<noteq> t)"
| "py_ne (TNum _) t = True"

text \<open>\<open>prev_accuracy >= accuracy\<close>, the right operand being a float.\<close>

fun py_ge :: "tag \<Rightarrow> real \<Rightarrow> exn + bool" where
  "py_ge (TNum p) a = Inr (p \<ge> a)"
| "py_ge (TStr _) a = Inl TypeError"

text \<open>
  The conditional registration, from \<open>new_model = False\<close> to the end of the \<open>except\<close> block.
  The result is the triple \<open>(new_model, model, workspace)\<close> the script goes on with. Only the
  constructor \<open>Model(...)\<close> raises the exception the \<open>except\<close> clause names; a missing tag
  or an ill-typed comparison ends the script. The \<open>or\<close> does not evaluate its right
  operand when the left one is true.
\<close>

definition decide_registration ::
  "string \<Rightarrow> string \<Rightarrow> real \<Rightarrow> workspace \<Rightarrow> exn + (bool \<times> registered_model \<times> workspace)" where
  "decide_registration model_dir test_dir accuracy w =
     (case Model_get w model_name of
        Inl _ \<Rightarrow>
          (let (m, w') = register_model model_dir model_dir model_name accuracy test_dir w
           in Inr (True, m, w'))
      | Inr model \<Rightarrow>
          (case tag_get (reg_tags model) ''accuracy'' of
             Inl e \<Rightarrow> Inl e
           | Inr prev_accuracy \<Rightarrow>
               (case tag_get (reg_tags model) ''test_data'' of
                  Inl e \<Rightarrow> Inl e
                | Inr prev_test_dir \<Rightarrow>
                    (if py_ne prev_test_dir test_dir then
                       (let (m, w') =
                          register_model model_dir model_dir model_name accuracy test_dir w
                        in Inr (True, m, w'))
                     else
                       (case py_ge prev_accuracy accuracy of
                          Inl e \<Rightarrow> Inl e
                        | Inr b \<Rightarrow>
                            (if b then
                               (let (m, w') =
                                  register_model model_dir model_dir model_name accuracy
                                    test_dir w
                                in Inr (True, m, w'))
                             else Inr (False, model, w)))))))"

text \<open>
  The \<open>if new_model: ... else: ...\<close> block. A lookup of the endpoint that fails inside the
  \<open>try\<close> is swallowed; the lookup in the \<open>else\<close> branch is not guarded.
\<close>

definition publish ::
  "bool \<Rightarrow> registered_model \<Rightarrow> string \<Rightarrow> workspace \<Rightarrow> (exn + webservice) \<times> workspace" where
  "publish new_model model uri w =
     (if new_model then
        (let w1 = (case Webservice_get w service_name of
                     Inl _ \<Rightarrow> w
                   | Inr service \<Rightarrow> service_delete service w)
         in case Model_deploy w1 service_name [model] ''score.py'' uri of
              Inl e \<Rightarrow> (Inl e, w1)
            | Inr (service, w2) \<Rightarrow> (Inr service, w2))
      else (Webservice_get w service_name, w))"

text \<open>
  The whole script. The environment objects it builds (\<open>iris-env\<close>, the conda
  dependencies) do not enter the registration and are left out; \<open>uri\<close> is the address
  the platform gives a newly created endpoint. The accuracy is the float the Evaluate stage
  dumps. A file that is no pickle fails to load; a file holding a pickled value of another
  kind is outside the model, which stops there, whereas the script would carry that value
  on as the accuracy.
\<close>

definition deploy ::
  "string \<Rightarrow> string \<Rightarrow> string \<Rightarrow> string \<Rightarrow> filesystem \<times> workspace
     \<Rightarrow> (exn + unit) \<times> filesystem \<times> workspace" where
  "deploy test_dir accuracy_dir model_dir uri st =
     (let (fs, w) = st;
          fs1 = ensure_dir model_dir fs
      in case open_read (accuracy_dir @ ''/accuracy_file'') fs1 of
           Inl e \<Rightarrow> (Inl e, fs1, w)
         | Inr (Pickled_float accuracy) \<Rightarrow>
             (case decide_registration model_dir test_dir accuracy w of
                Inl e \<Rightarrow> (Inl e, fs1, w)
              | Inr (new_model, model, w1) \<Rightarrow>
                  (case publish new_model model uri w1 of
                     (Inl e, w2) \<Rightarrow> (Inl e, fs1, w2)
                   | (Inr service, w2) \<Rightarrow>
                       (Inr (),
                        write_file (model_dir @ ''/scoring_uri.txt'')
                          (Text (scoring_uri service)) fs1,
                        w2)))
         | Inr _ \<Rightarrow> (Inl UnpicklingError, fs1, w))"

section \<open>evaluate.py\<close>

text \<open>
  The names the script's \<open>import\<close> lines bind, in their order. Using a module name that
  no import has bound raises NameError.
\<close>

definition evaluate_imports :: "string list" where
  "evaluate_imports =
     [''classification_report'', ''confusion_matrix'', ''accuracy_score'', ''SVC'',
      ''pickle'', ''argparse'']"

definition use_name :: "string list \<Rightarrow> string \<Rightarrow> exn + unit" where
  "use_name bound n = (if n \<in> set bound then Inr () else Inl (NameError n))"

text \<open>
  The three loads. Each stage reads what the stage before it dumped; a file that holds
  a value of another kind is reported at the load.
\<close>

definition load_classifier :: "string \<Rightarrow> filesystem \<Rightarrow> exn + classifier" where
  "load_classifier p fs =
     (case open_read p fs of
        Inl e \<Rightarrow> Inl e
      | Inr (Pickled_classifier m) \<Rightarrow> Inr m
      | Inr _ \<Rightarrow> Inl UnpicklingError)"

definition load_rows :: "string \<Rightarrow> filesystem \<Rightarrow> exn + cell list list" where
  "load_rows p fs =
     (case open_read p fs of
        Inl e \<Rightarrow> Inl e
      | Inr (Pickled_rows X) \<Rightarrow> Inr X
      | Inr _ \<Rightarrow> Inl UnpicklingError)"

definition load_column :: "string \<Rightarrow> filesystem \<Rightarrow> exn + cell list" where
  "load_column p fs =
     (case open_read p fs of
        Inl e \<Rightarrow> Inl e
      | Inr (Pickled_column y) \<Rightarrow> Inr y
      | Inr _ \<Rightarrow> Inl UnpicklingError)"

fun number :: "cell \<Rightarrow> real option" where
  "number (Num r) = Some r"
| "number (Str _) = None"

text \<open>
  \<open>model.predict(X)\<close>: the library validates its input (at least one row, at least
  one column, every row of the fitted width, every cell a number) and returns one label
  per row. A string cell is
  refused here; the library's reading of a string that spells a number is outside the model.
\<close>

definition predict :: "classifier \<Rightarrow> cell list list \<Rightarrow> exn + label list" where
  "predict m X =
     (case those (map (\<lambda>r. if length r = n_features m then those (map number r) else None) X) of
        None \<Rightarrow> Inl ValueError
      | Some rows \<Rightarrow>
          if rows = [] \<or> n_features m = 0 then Inl ValueError else Inr (map (decide m) rows))"

text \<open>
  Modelled from the spec: \<open>sklearn.metrics.accuracy_score\<close> is library code that the
  repository calls and does not contain. The spec gives it as the fraction of exact label
  matches. Sequences of different lengths are refused; the fraction of an empty sequence
  is not a number and is reported as an error rather than computed as a division by zero.
\<close>

definition accuracy_score :: "'a list \<Rightarrow> 'a list \<Rightarrow> exn + real" where
  "accuracy_score y_true y_pred =
     (if length y_true \<noteq> length y_pred \<or> y_true = [] then Inl ValueError
      else Inr (real (length (filter (\<lambda>(t, p). t = p) (zip y_true y_pred)))
                / real (length y_true)))"

text \<open>
  The script, from the first load to the write of the accuracy file. Nothing touches the
  file system before \<open>os.path.exists\<close> is reached.
\<close>

definition evaluate ::
  "string \<Rightarrow> string \<Rightarrow> string \<Rightarrow> filesystem \<Rightarrow> (exn + unit) \<times> filesystem" where
  "evaluate model_dir test_dir accuracy_dir fs =
     (case use_name evaluate_imports ''pickle'' of
        Inl e \<Rightarrow> (Inl e, fs)
      | Inr _ \<Rightarrow>
     (case load_classifier (model_dir @ ''/model.pt'') fs of
        Inl e \<Rightarrow> (Inl e, fs)
      | Inr loaded_model \<Rightarrow>
     (case load_rows (test_dir @ ''/X_test.sav'') fs of
        Inl e \<Rightarrow> (Inl e, fs)
      | Inr loaded_validx \<Rightarrow>
     (case load_column (test_dir @ ''/Y_test.sav'') fs of
        Inl e \<Rightarrow> (Inl e, fs)
      | Inr loaded_validy \<Rightarrow>
     (case predict loaded_model loaded_validx of
        Inl e \<Rightarrow> (Inl e, fs)
      | Inr predictions \<Rightarrow>
     (case use_name evaluate_imports ''accuracy_score'' of
        Inl e \<Rightarrow> (Inl e, fs)
      | Inr _ \<Rightarrow>
     (case accuracy_score loaded_validy (map Str predictions) of
        Inl e \<Rightarrow> (Inl e, fs)
      | Inr accuracy \<Rightarrow>
     (case use_name evaluate_imports ''os'' of
        Inl e \<Rightarrow> (Inl e, fs)
      | Inr _ \<Rightarrow>
          (Inr (),
           write_file (accuracy_dir @ ''/accuracy_file'') (Pickled_float accuracy)
             (ensure_dir accuracy_dir fs))))))))))"

section \<open>preprocess.py\<close>

text \<open>\<open>os.path.join(a, b)\<close> for a relative \<open>b\<close>\<close>

definition path_join :: "string \<Rightarrow> string \<Rightarrow> string" where
  "path_join a b =
     (if a = [] then b else if last a = CHR ''/'' then a @ b else a @ ''/'' @ b)"

text \<open>
  Two library calls are parameters of the script here, since what they return is decided
  by the library and the file system together. \<open>glob.glob(pattern)\<close>, the parameter
  \<open>glob_glob\<close>, searches the file system: it reads every component of the pattern as a
  pattern and returns directories as well as files. \<open>pd.read_csv(f, names=names)\<close>, the
  parameter \<open>read_csv\<close>, gives the five-column records it parses from the path, or the
  exception it raises there (for a directory, an empty file, a file it cannot parse).
\<close>

text \<open>
  The generator handed to \<open>pd.concat\<close> is consumed front to back; the first path that
  fails to be read ends the script.
\<close>

fun read_each :: "(string \<Rightarrow> exn + 'a list) \<Rightarrow> string list \<Rightarrow> exn + 'a list list" where
  "read_each read_csv [] = Inr []"
| "read_each read_csv (f # rest) =
     (case read_csv f of
        Inl e \<Rightarrow> Inl e
      | Inr frame \<Rightarrow>
          (case read_each read_csv rest of
             Inl e \<Rightarrow> Inl e
           | Inr frames \<Rightarrow> Inr (frame # frames)))"

text \<open>\<open>pd.concat\<close> refuses an empty sequence of frames.\<close>

definition pd_concat :: "'a list list \<Rightarrow> exn + 'a list" where
  "pd_concat frames = (if frames = [] then Inl ValueError else Inr (concat frames))"

text \<open>\<open>array[:,0:4]\<close> and \<open>array[:,4]\<close>\<close>

fun features :: "cell \<times> cell \<times> cell \<times> cell \<times> cell \<Rightarrow> cell list" where
  "features (a, b, c, d, e) = [a, b, c, d]"

fun class_of :: "cell \<times> cell \<times> cell \<times> cell \<times> cell \<Rightarrow> cell" where
  "class_of (a, b, c, d, e) = e"

text \<open>
  What the library's seeded shuffle contributes to \<open>train_test_split\<close>: for \<open>n\<close> samples,
  the size of the test part (the ratio 0.20 times \<open>n\<close>, rounded up in floating point) and
  the permutation of the \<open>n\<close> positions that the generator seeded with 1 yields. Both are
  parameters of the model.
\<close>

record shuffle =
  test_count :: "nat \<Rightarrow> nat"
  permutation :: "nat \<Rightarrow> nat list"

definition pick :: "'a list \<Rightarrow> nat list \<Rightarrow> 'a list" where
  "pick xs idx = map (\<lambda>i. xs ! i) (filter (\<lambda>i. i < length xs) idx)"

text \<open>
  \<open>train_test_split(X, y, test_size=0.20, random_state=1)\<close>: the test part is the first
  \<open>n_test\<close> positions of the permutation and the train part the next \<open>n - n_test\<close>; a
  split whose train part would be empty is refused, which includes the split of no samples.
\<close>

definition train_test_split ::
  "shuffle \<Rightarrow> 'a list \<Rightarrow> 'b list \<Rightarrow> exn + ('a list \<times> 'a list \<times> 'b list \<times> 'b list)" where
  "train_test_split sh X y =
     (let n = length X; n_test = test_count sh n; n_train = n - n_test
      in if n_train = 0 then Inl ValueError
         else
           let ind_test = take n_test (permutation sh n);
               ind_train = take n_train (drop n_test (permutation sh n))
           in Inr (pick X ind_train, pick X ind_test, pick y ind_train, pick y ind_test))"

definition preprocess ::
  "shuffle \<Rightarrow> (string \<Rightarrow> string list)
     \<Rightarrow> (string \<Rightarrow> exn + (cell \<times> cell \<times> cell \<times> cell \<times> cell) list)
     \<Rightarrow> string \<Rightarrow> string \<Rightarrow> string \<Rightarrow> filesystem \<Rightarrow> (exn + unit) \<times> filesystem" where
  "preprocess sh glob_glob read_csv iris_data_dir train_dir test_dir fs =
     (let all_files = glob_glob (path_join iris_data_dir ''*.csv'')
      in case read_each read_csv all_files of
           Inl e \<Rightarrow> (Inl e, fs)
         | Inr frames \<Rightarrow>
        (case pd_concat frames of
           Inl e \<Rightarrow> (Inl e, fs)
         | Inr dataset \<Rightarrow>
        (case train_test_split sh (map features dataset) (map class_of dataset) of
           Inl e \<Rightarrow> (Inl e, fs)
         | Inr (X_train, X_test, Y_train, Y_test) \<Rightarrow>
             (let fs1 = ensure_dir train_dir fs;
                  fs2 = ensure_dir test_dir fs1;
                  fs3 = write_file (test_dir @ ''/X_test.sav'') (Pickled_rows X_test) fs2;
                  fs4 = write_file (test_dir @ ''/Y_test.sav'') (Pickled_column Y_test) fs3;
                  fs5 = write_file (train_dir @ ''/X_train.sav'') (Pickled_rows X_train) fs4;
                  fs6 = write_file (train_dir @ ''/Y_train.sav'') (Pickled_column Y_train) fs5
              in (Inr (), fs6)))))"

section \<open>score.py\<close>

text \<open>
  What \<open>json.loads\<close> returns: \<open>None\<close>, a boolean, an integer of any size, a float, a
  string, a list or a dictionary. A finite float is given by the number it denotes;
  \<open>JNonfinite\<close> is one of the floats that denote none (the parser returns them for a
  literal too large for a double and for the tokens \<open>NaN\<close> and \<open>Infinity\<close>).
\<close>

datatype json =
    JNull
  | JBool bool
  | JInt int
  | JFloat real
  | JNonfinite
  | JStr string
  | JArr "json list"
  | JObj "(string \<times> json) list"

text \<open>The module's one global: \<open>model\<close>, unbound until \<open>init\<close> has run.\<close>

record score_globals =
  global_model :: "classifier option"

text \<open>
  \<open>init()\<close>: \<open>os.getenv\<close> gives \<open>None\<close> for a variable that is not set, and joining
  \<open>None\<close> with a file name raises TypeError.
\<close>

definition init :: "string option \<Rightarrow> filesystem \<Rightarrow> score_globals \<Rightarrow> exn + score_globals" where
  "init azureml_model_dir fs g =
     (case azureml_model_dir of
        None \<Rightarrow> Inl TypeError
      | Some d \<Rightarrow>
          (case load_classifier (path_join d ''model.pt'') fs of
             Inl e \<Rightarrow> Inl e
           | Inr m \<Rightarrow> Inr (g\<lparr>global_model := Some m\<rparr>)))"

text \<open>
  \<open>json.loads(raw_data)['data']\<close>, after the parse: an object is looked up by key (the
  last of several equal keys wins), every other value refuses a string subscript.
\<close>

fun subscript :: "json \<Rightarrow> string \<Rightarrow> exn + json" where
  "subscript (JObj kvs) k =
     (case map_of (rev kvs) k of None \<Rightarrow> Inl (KeyError k) | Some v \<Rightarrow> Inr v)"
| "subscript _ k = Inl TypeError"

text \<open>The largest finite double.\<close>

definition double_max :: real where
  "double_max = 2 ^ 1024 - 2 ^ 971"

text \<open>
  A number that \<open>np.array\<close> stores in a double as it stands: a finite float, or an integer
  of magnitude at most \<open>2 ^ 53\<close>. A payload that is a flat list of such numbers becomes
  the row of them.
\<close>

fun plain_number :: "json \<Rightarrow> real option" where
  "plain_number (JFloat r) = (if \<bar>r\<bar> \<le> double_max then Some r else None)"
| "plain_number (JInt i) = (if \<bar>i\<bar> \<le> 2 ^ 53 then Some (real_of_int i) else None)"
| "plain_number _ = None"

fun plain_row :: "json \<Rightarrow> real list option" where
  "plain_row (JArr js) = those (map plain_number js)"
| "plain_row _ = None"

text \<open>
  \<open>run(raw_data)\<close>. \<open>json.loads\<close> is the library's parser, the parameter \<open>json_loads\<close>:
  \<open>None\<close> is a body that is not JSON. For a payload that is a row of plain numbers,
  \<open>np.array\<close> builds the row, the global \<open>model\<close> is looked up and the row is predicted.
  What \<open>np.array\<close> and the library's input validation make of any other payload (larger
  integers, which are rounded or overflow; non-finite floats; booleans, strings and
  \<open>None\<close>; nested lists; dictionaries) is the parameter \<open>other\<close>, from the global and the
  payload to the outcome. The function has no \<open>try\<close>: every exception leaves it, and it
  assigns to no global.
\<close>

definition run ::
  "(string \<Rightarrow> json option) \<Rightarrow> (classifier option \<Rightarrow> json \<Rightarrow> exn + label list)
     \<Rightarrow> score_globals \<Rightarrow> string \<Rightarrow> (exn + label list) \<times> score_globals" where
  "run json_loads other g raw_data =
     (case json_loads raw_data of
        None \<Rightarrow> (Inl JSONDecodeError, g)
      | Some j \<Rightarrow>
          (case subscript j ''data'' of
             Inl e \<Rightarrow> (Inl e, g)
           | Inr d \<Rightarrow>
               (case plain_row d of
                  None \<Rightarrow> (other (global_model g) d, g)
                | Some data \<Rightarrow>
                    (case global_model g of
                       None \<Rightarrow> (Inl (NameError ''model''), g)
                     | Some m \<Rightarrow> (predict m [map Num data], g)))))"

text \<open>A sequence of requests served one after another by the same process.\<close>

fun serve ::
  "(string \<Rightarrow> json option) \<Rightarrow> (classifier option \<Rightarrow> json \<Rightarrow> exn + label list)
     \<Rightarrow> score_globals \<Rightarrow> string list \<Rightarrow> (exn + label list) list \<times> score_globals" where
  "serve json_loads other g [] = ([], g)"
| "serve json_loads other g (r # rs) =
     (let (x, g1) = run json_loads other g r; (xs, g2) = serve json_loads other g1 rs
      in (x # xs, g2))"

section \<open>The secret-poller container\<close>

text \<open>
  The \<open>az\<close> container's shell script. One run of \<open>az keyvault secret list\<close> is given by its
  exit status and by what it prints on standard output.
\<close>

record poll =
  exit_status :: nat
  stdout :: string

definition index_html :: string where
  "index_html = ''/data/index.html''"

text \<open>\<open>echo Unable to list secrets in key vault > /data/index.html\<close>\<close>

definition placeholder :: string where
  "placeholder = ''Unable to list secrets in key vault'' @ [CHR 0x0A]"

text \<open>
  \<open>command > file\<close>: the shell opens the file for writing, emptying it, before the
  command starts, and the file then receives the command's standard output, whatever the
  exit status.
\<close>

definition redirect :: "string \<Rightarrow> string \<Rightarrow> filesystem \<Rightarrow> filesystem" where
  "redirect out file fs = write_file file (Text out) fs"

definition secret_list :: "poll \<Rightarrow> filesystem \<Rightarrow> filesystem" where
  "secret_list p fs = redirect (stdout p) index_html fs"

text \<open>
  The endless \<open>while [ 1 -eq 1 ]\<close> loop, followed for as many iterations as there are
  polls in the list. The exit status of the poll is not tested.
\<close>

fun poll_loop :: "poll list \<Rightarrow> filesystem \<Rightarrow> filesystem" where
  "poll_loop [] fs = fs"
| "poll_loop (p # ps) fs = poll_loop ps (secret_list p fs)"

text \<open>
  The script: the placeholder is written first; the two waiting loops (for the identity
  endpoint and for the login) write no file; then the poll loop runs. A run that never
  gets past the waiting loops is the run with no polls.
\<close>

definition az_container :: "poll list \<Rightarrow> filesystem \<Rightarrow> filesystem" where
  "az_container polls fs = poll_loop polls (redirect placeholder index_html fs)"

section \<open>The pipeline and its runs\<close>

datatype stage = Ingest | Preprocess | Train | Evaluate | Deploy

datatype data_reference =
  Datastore | Iris_data_dir | Train_dir | Test_dir | Model_dir | Accuracy_dir | Output_dir

text \<open>The \<open>inputs\<close>, \<open>outputs\<close> and \<open>allow_reuse\<close> arguments of the five steps.\<close>

fun inputs :: "stage \<Rightarrow> data_reference list" where
  "inputs Ingest = [Datastore]"
| "inputs Preprocess = [Iris_data_dir]"
| "inputs Train = [Train_dir]"
| "inputs Evaluate = [Test_dir, Model_dir]"
| "inputs Deploy = [Test_dir, Accuracy_dir, Model_dir]"

fun outputs :: "stage \<Rightarrow> data_reference list" where
  "outputs Ingest = [Iris_data_dir]"
| "outputs Preprocess = [Train_dir, Test_dir]"
| "outputs Train = [Model_dir]"
| "outputs Evaluate = [Accuracy_dir]"
| "outputs Deploy = [Output_dir]"

fun allow_reuse :: "stage \<Rightarrow> bool" where
  "allow_reuse Train = False"
| "allow_reuse _ = True"

text \<open>The \<open>steps\<close> argument of \<open>Pipeline\<close>.\<close>

definition steps :: "stage list" where
  "steps = [Ingest, Preprocess, Train, Evaluate, Deploy]"

text \<open>A stage depends on another one when it reads a data reference the other writes.\<close>

definition depends_on :: "stage \<Rightarrow> stage \<Rightarrow> bool" where
  "depends_on s t = list_ex (\<lambda>d. d \<in> set (outputs t)) (inputs s)"

subsection \<open>The run orchestrator\<close>

text \<open>
  Modelled from the spec: the run orchestrator is the cloud service that executes a
  submitted pipeline; the repository declares the steps and hands them over, and does not
  contain the service. The spec gives a stage execution the statuses pending, running,
  succeeded, failed and reused.
\<close>

datatype status = Pending | Running | Succeeded | Failed | Reused

type_synonym run_state = "stage \<Rightarrow> status"

text \<open>Modelled from the spec: a run starts with every stage execution pending.\<close>

definition submitted :: run_state where
  "submitted = (\<lambda>_. Pending)"

text \<open>
  Modelled from the spec: a stage runs after all stages producing any of its inputs, so it
  may leave pending only when each of them has succeeded or been reused.
\<close>

definition ready :: "run_state \<Rightarrow> stage \<Rightarrow> bool" where
  "ready \<sigma> s =
     list_all (\<lambda>t. \<sigma> t = Succeeded \<or> \<sigma> t = Reused) (filter (depends_on s) steps)"

text \<open>
  Modelled from the spec: the transitions are pending to running, running to succeeded or
  failed, and pending to reused where the step allows reuse; succeeded, failed and reused
  are final. An event that is not enabled in a state has no successor.
\<close>

datatype event = Start stage | Reuse stage | Succeed stage | Fail stage

fun fire :: "event \<Rightarrow> run_state \<Rightarrow> run_state option" where
  "fire (Start s) \<sigma> =
     (if \<sigma> s = Pending \<and> ready \<sigma> s then Some (\<sigma>(s := Running)) else None)"
| "fire (Reuse s) \<sigma> =
     (if \<sigma> s = Pending \<and> ready \<sigma> s \<and> allow_reuse s then Some (\<sigma>(s := Reused)) else None)"
| "fire (Succeed s) \<sigma> =
     (if \<sigma> s = Running then Some (\<sigma>(s := Succeeded)) else None)"
| "fire (Fail s) \<sigma> =
     (if \<sigma> s = Running then Some (\<sigma>(s := Failed)) else None)"

text \<open>
  Modelled from the spec: a run is a sequence of such transitions, each enabled in the
  state it meets.
\<close>

fun run_events :: "event list \<Rightarrow> run_state \<Rightarrow> run_state option" where
  "run_events [] \<sigma> = Some \<sigma>"
| "run_events (e # es) \<sigma> =
     (case fire e \<sigma> of None \<Rightarrow> None | Some \<sigma>' \<Rightarrow> run_events es \<sigma>')"

text \<open>
  The invariant of a run: a stage that has left pending has all its producers finished
  successfully.
\<close>

definition producers_done :: "run_state \<Rightarrow> bool" where
  "producers_done \<sigma> =
     (\<forall>s t. \<sigma> s \<noteq> Pending \<longrightarrow> depends_on s t \<longrightarrow> \<sigma> t = Succeeded \<or> \<sigma> t = Reused)"

section \<open>Properties of deploy.py\<close>

lemma open_read_ensure_dir: "open_read p (ensure_dir d fs) = open_read p fs"
  by (simp add: open_read_def ensure_dir_def makedirs_def)

lemma register_model_eq:
  "register_model model_dir output_dir name accuracy test_dir w =
     (\<lparr>reg_path = model_dir @ ''/model.pt'', reg_name = ''iris-classification-pipeline'',
       reg_tags = [(''accuracy'', TNum accuracy), (''test_data'', TStr test_dir)],
       reg_description = ''Object recognition classifier''\<rparr>,
      w\<lparr>models :=
          \<lparr>reg_path = model_dir @ ''/model.pt'', reg_name = ''iris-classification-pipeline'',
           reg_tags = [(''accuracy'', TNum accuracy), (''test_data'', TStr test_dir)],
           reg_description = ''Object recognition classifier''\<rparr> # models w\<rparr>)"
  by (simp add: register_model_def Model_register_def Let_def)

lemma decide_registration_no_model:
  "Model_get w model_name = Inl e \<Longrightarrow>
   decide_registration model_dir test_dir accuracy w =
     Inr (True, fst (register_model model_dir model_dir model_name accuracy test_dir w),
          snd (register_model model_dir model_dir model_name accuracy test_dir w))"
  by (simp add: decide_registration_def split: prod.splits)

lemma py_ne_iff: "py_ne t s = (t \<noteq> TStr s)"
  by (cases t) simp_all

lemma decide_registration_model:
  "Model_get w model_name = Inr m \<Longrightarrow>
   tag_get (reg_tags m) ''accuracy'' = Inr a \<Longrightarrow>
   tag_get (reg_tags m) ''test_data'' = Inr t \<Longrightarrow>
   (t = TStr test_dir \<longrightarrow> a = TNum p) \<Longrightarrow>
   decide_registration model_dir test_dir accuracy w =
     (if t \<noteq> TStr test_dir \<or> \<not> p < accuracy
      then Inr (True, fst (register_model model_dir model_dir model_name accuracy test_dir w),
                snd (register_model model_dir model_dir model_name accuracy test_dir w))
      else Inr (False, m, w))"
  by (auto simp add: decide_registration_def py_ne_iff split: prod.splits)

lemma decide_registration_result:
  "(\<exists>e. decide_registration model_dir test_dir accuracy w = Inl e)
   \<or> decide_registration model_dir test_dir accuracy w =
       Inr (True, fst (register_model model_dir model_dir model_name accuracy test_dir w),
            snd (register_model model_dir model_dir model_name accuracy test_dir w))
   \<or> (\<exists>m. decide_registration model_dir test_dir accuracy w = Inr (False, m, w))"
  by (simp add: decide_registration_def split: sum.splits prod.splits)

lemma find_none_filter: "find P xs = None \<Longrightarrow> filter (\<lambda>x. \<not> P x) xs = xs"
  by (induction xs) (auto split: if_splits)

lemma publish_new:
  "publish True m uri w =
     (Inr \<lparr>ws_name = service_name, ws_models = [m], ws_entry_script = ''score.py'',
           scoring_uri = uri\<rparr>,
      w\<lparr>services :=
          \<lparr>ws_name = service_name, ws_models = [m], ws_entry_script = ''score.py'',
           scoring_uri = uri\<rparr> # filter (\<lambda>s. ws_name s \<noteq> service_name) (services w)\<rparr>)"
proof (cases "find (\<lambda>s. ws_name s = service_name) (services w)")
  case None
  then have "filter (\<lambda>s. ws_name s \<noteq> service_name) (services w) = services w"
    by (rule find_none_filter)
  moreover from None have "service_name \<notin> ws_name ` set (services w)"
    by (auto simp: find_None_iff)
  ultimately show ?thesis using None
    by (simp add: publish_def Webservice_get_def Model_deploy_def Let_def)
next
  case (Some s)
  then have "ws_name s = service_name"
    by (auto simp: find_Some_iff)
  then show ?thesis using Some
    by (auto simp add: publish_def Webservice_get_def Model_deploy_def Let_def
        service_delete_def)
qed

lemma publish_old: "publish False m uri w = (Webservice_get w service_name, w)"
  by (simp add: publish_def)

lemma publish_models: "models (snd (publish b m uri w)) = models w"
  by (cases b) (simp_all add: publish_new publish_old)

lemma deploy_workspace:
  "open_read (accuracy_dir @ ''/accuracy_file'') fs = Inr (Pickled_float accuracy) \<Longrightarrow>
   snd (snd (deploy test_dir accuracy_dir model_dir uri (fs, w))) =
     (case decide_registration model_dir test_dir accuracy w of
        Inl e \<Rightarrow> w
      | Inr (new_model, model, w1) \<Rightarrow> snd (publish new_model model uri w1))"
  by (simp add: deploy_def Let_def open_read_ensure_dir split: sum.splits prod.splits)

lemma deploy_workspace_unreadable:
  "(\<forall>accuracy. open_read (accuracy_dir @ ''/accuracy_file'') fs \<noteq> Inr (Pickled_float accuracy))
   \<Longrightarrow> snd (snd (deploy test_dir accuracy_dir model_dir uri (fs, w))) = w"
  by (simp add: deploy_def Let_def open_read_ensure_dir split: sum.splits content.splits)

text \<open>
  C1. The code departs from the claim. With a registration of accuracy 0.90 on test data
  \<open>A\<close> in place, the Deploy stage run with the lower accuracy 0.85 on \<open>A\<close> registers the
  new model and replaces the endpoint, and run with the higher accuracy 0.95 on \<open>A\<close> it
  leaves registry and endpoint as they were: the comparison is the reverse of the one the
  claim (and the comment above it in the script) describes.
\<close>

theorem deploy_at_090_A:
  "snd (snd (deploy ''A'' ''acc'' ''m'' ''http://new''
      (\<lparr>dirs = [''m'', ''acc''], files = [(''acc/accuracy_file'', Pickled_float 0.85)]\<rparr>,
       \<lparr>models =
          [\<lparr>reg_path = ''m/model.pt'', reg_name = ''iris-classification-pipeline'',
            reg_tags = [(''accuracy'', TNum 0.90), (''test_data'', TStr ''A'')],
            reg_description = ''Object recognition classifier''\<rparr>],
        services =
          [\<lparr>ws_name = ''iris-classification-service'', ws_models = [],
            ws_entry_script = ''score.py'', scoring_uri = ''http://old''\<rparr>]\<rparr>))) =
     \<lparr>models =
        [\<lparr>reg_path = ''m/model.pt'', reg_name = ''iris-classification-pipeline'',
          reg_tags = [(''accuracy'', TNum 0.85), (''test_data'', TStr ''A'')],
          reg_description = ''Object recognition classifier''\<rparr>,
         \<lparr>reg_path = ''m/model.pt'', reg_name = ''iris-classification-pipeline'',
          reg_tags = [(''accuracy'', TNum 0.90), (''test_data'', TStr ''A'')],
          reg_description = ''Object recognition classifier''\<rparr>],
      services =
        [\<lparr>ws_name = ''iris-classification-service'',
          ws_models =
            [\<lparr>reg_path = ''m/model.pt'', reg_name = ''iris-classification-pipeline'',
              reg_tags = [(''accuracy'', TNum 0.85), (''test_data'', TStr ''A'')],
              reg_description = ''Object recognition classifier''\<rparr>],
          ws_entry_script = ''score.py'', scoring_uri = ''http://new''\<rparr>]\<rparr>
   \<and> snd (snd (deploy ''A'' ''acc'' ''m'' ''http://new''
      (\<lparr>dirs = [''m'', ''acc''], files = [(''acc/accuracy_file'', Pickled_float 0.95)]\<rparr>,
       \<lparr>models =
          [\<lparr>reg_path = ''m/model.pt'', reg_name = ''iris-classification-pipeline'',
            reg_tags = [(''accuracy'', TNum 0.90), (''test_data'', TStr ''A'')],
            reg_description = ''Object recognition classifier''\<rparr>],
        services =
          [\<lparr>ws_name = ''iris-classification-service'', ws_models = [],
            ws_entry_script = ''score.py'', scoring_uri = ''http://old''\<rparr>]\<rparr>))) =
       \<lparr>models =
          [\<lparr>reg_path = ''m/model.pt'', reg_name = ''iris-classification-pipeline'',
            reg_tags = [(''accuracy'', TNum 0.90), (''test_data'', TStr ''A'')],
            reg_description = ''Object recognition classifier''\<rparr>],
        services =
          [\<lparr>ws_name = ''iris-classification-service'', ws_models = [],
            ws_entry_script = ''score.py'', scoring_uri = ''http://old''\<rparr>]\<rparr>"
  by (simp add: deploy_def ensure_dir_def path_exists_def open_read_def decide_registration_def Model_get_def
      model_name_def tag_get_def register_model_def Model_register_def publish_def
      Webservice_get_def service_name_def service_delete_def Model_deploy_def write_file_def
      Let_def)

text \<open>
  C2, as the code has it. Let the accuracy file hold the new accuracy as a float, and let
  the latest registration under the model name, if there is one, carry the tags
  \<open>accuracy\<close> and \<open>test_data\<close>, the accuracy tag being a number whenever the stored test
  data is the current one. Then the Deploy stage leaves the workspace with the new
  registration added and the endpoint replaced by one serving it exactly when there was no
  registration, or the stored test data differs from the current one, or the new accuracy
  is not strictly above the stored one; in every other case the workspace, registry and
  endpoints alike, is the one it started from.
\<close>

theorem deploy_registers_iff:
  assumes acc: "open_read (accuracy_dir @ ''/accuracy_file'') fs = Inr (Pickled_float accuracy)"
    and prior: "\<forall>m. Model_get w model_name = Inr m \<longrightarrow>
                  tag_get (reg_tags m) ''accuracy'' = Inr prev_tag \<and>
                  tag_get (reg_tags m) ''test_data'' = Inr prev_test \<and>
                  (prev_test = TStr test_dir \<longrightarrow> prev_tag = TNum prev_accuracy)"
  shows "(snd (snd (deploy test_dir accuracy_dir model_dir uri (fs, w))) =
            \<lparr>models =
               \<lparr>reg_path = model_dir @ ''/model.pt'', reg_name = ''iris-classification-pipeline'',
                reg_tags = [(''accuracy'', TNum accuracy), (''test_data'', TStr test_dir)],
                reg_description = ''Object recognition classifier''\<rparr> # models w,
             services =
               \<lparr>ws_name = ''iris-classification-service'',
                ws_models =
                  [\<lparr>reg_path = model_dir @ ''/model.pt'',
                    reg_name = ''iris-classification-pipeline'',
                    reg_tags = [(''accuracy'', TNum accuracy), (''test_data'', TStr test_dir)],
                    reg_description = ''Object recognition classifier''\<rparr>],
                ws_entry_script = ''score.py'', scoring_uri = uri\<rparr>
               # filter (\<lambda>s. ws_name s \<noteq> ''iris-classification-service'') (services w)\<rparr>)
         = (Model_get w model_name = Inl WebserviceException
            \<or> prev_test \<noteq> TStr test_dir \<or> \<not> prev_accuracy < accuracy)
       \<and> (\<not> (Model_get w model_name = Inl WebserviceException
              \<or> prev_test \<noteq> TStr test_dir \<or> \<not> prev_accuracy < accuracy)
            \<longrightarrow> snd (snd (deploy test_dir accuracy_dir model_dir uri (fs, w))) = w)"
proof (cases "Model_get w model_name")
  case (Inl e)
  then have e: "e = WebserviceException"
    by (auto simp: Model_get_def split: option.splits)
  show ?thesis
    using Inl e
    by (simp add: deploy_workspace [OF acc] decide_registration_no_model [OF Inl]
        register_model_eq publish_new service_name_def)
next
  case (Inr m)
  with prior have t: "tag_get (reg_tags m) ''accuracy'' = Inr prev_tag"
    "tag_get (reg_tags m) ''test_data'' = Inr prev_test"
    "prev_test = TStr test_dir \<longrightarrow> prev_tag = TNum prev_accuracy"
    by auto
  have neq: "\<And>x xs. (w = \<lparr>models = x # models w, services = xs\<rparr>) = False"
  proof -
    fix x xs
    have "models w \<noteq> x # models w" by simp
    then show "(w = \<lparr>models = x # models w, services = xs\<rparr>) = False"
      by (metis workspace.select_convs(1))
  qed
  show ?thesis
    using Inr
    by (simp add: deploy_workspace [OF acc] decide_registration_model [OF Inr t]
        register_model_eq publish_new publish_old service_name_def neq)
qed

theorem deploy_registers_iff_witness:
  "snd (snd (deploy ''B'' ''acc'' ''m'' ''http://new''
      (\<lparr>dirs = [''m'', ''acc''], files = [(''acc/accuracy_file'', Pickled_float 0.85)]\<rparr>,
       \<lparr>models =
          [\<lparr>reg_path = ''m/model.pt'', reg_name = ''iris-classification-pipeline'',
            reg_tags = [(''accuracy'', TStr ''0.9''), (''test_data'', TStr ''A'')],
            reg_description = ''Object recognition classifier''\<rparr>],
        services = []\<rparr>))) =
     \<lparr>models =
        [\<lparr>reg_path = ''m/model.pt'', reg_name = ''iris-classification-pipeline'',
          reg_tags = [(''accuracy'', TNum 0.85), (''test_data'', TStr ''B'')],
          reg_description = ''Object recognition classifier''\<rparr>,
         \<lparr>reg_path = ''m/model.pt'', reg_name = ''iris-classification-pipeline'',
          reg_tags = [(''accuracy'', TStr ''0.9''), (''test_data'', TStr ''A'')],
          reg_description = ''Object recognition classifier''\<rparr>],
      services =
        [\<lparr>ws_name = ''iris-classification-service'',
          ws_models =
            [\<lparr>reg_path = ''m/model.pt'', reg_name = ''iris-classification-pipeline'',
              reg_tags = [(''accuracy'', TNum 0.85), (''test_data'', TStr ''B'')],
              reg_description = ''Object recognition classifier''\<rparr>],
          ws_entry_script = ''score.py'', scoring_uri = ''http://new''\<rparr>]\<rparr>
   \<and> snd (snd (deploy ''A'' ''acc'' ''m'' ''http://new''
      (\<lparr>dirs = [''m'', ''acc''], files = [(''acc/accuracy_file'', Pickled_float 0.95)]\<rparr>,
       \<lparr>models =
          [\<lparr>reg_path = ''m/model.pt'', reg_name = ''iris-classification-pipeline'',
            reg_tags = [(''accuracy'', TNum 0.90), (''test_data'', TStr ''A'')],
            reg_description = ''Object recognition classifier''\<rparr>],
        services = []\<rparr>))) =
     \<lparr>models =
          [\<lparr>reg_path = ''m/model.pt'', reg_name = ''iris-classification-pipeline'',
            reg_tags = [(''accuracy'', TNum 0.90), (''test_data'', TStr ''A'')],
            reg_description = ''Object recognition classifier''\<rparr>],
        services = []\<rparr>"
proof -
  have differs: "snd (snd (deploy ''B'' ''acc'' ''m'' ''http://new''
      (\<lparr>dirs = [''m'', ''acc''], files = [(''acc/accuracy_file'', Pickled_float 0.85)]\<rparr>,
       \<lparr>models =
          [\<lparr>reg_path = ''m/model.pt'', reg_name = ''iris-classification-pipeline'',
            reg_tags = [(''accuracy'', TStr ''0.9''), (''test_data'', TStr ''A'')],
            reg_description = ''Object recognition classifier''\<rparr>],
        services = []\<rparr>))) =
     \<lparr>models =
        [\<lparr>reg_path = ''m/model.pt'', reg_name = ''iris-classification-pipeline'',
          reg_tags = [(''accuracy'', TNum 0.85), (''test_data'', TStr ''B'')],
          reg_description = ''Object recognition classifier''\<rparr>,
         \<lparr>reg_path = ''m/model.pt'', reg_name = ''iris-classification-pipeline'',
          reg_tags = [(''accuracy'', TStr ''0.9''), (''test_data'', TStr ''A'')],
          reg_description = ''Object recognition classifier''\<rparr>],
      services =
        [\<lparr>ws_name = ''iris-classification-service'',
          ws_models =
            [\<lparr>reg_path = ''m/model.pt'', reg_name = ''iris-classification-pipeline'',
              reg_tags = [(''accuracy'', TNum 0.85), (''test_data'', TStr ''B'')],
              reg_description = ''Object recognition classifier''\<rparr>],
          ws_entry_script = ''score.py'', scoring_uri = ''http://new''\<rparr>]\<rparr>"
    using deploy_registers_iff [of "''acc''"
        "\<lparr>dirs = [''m'', ''acc''], files = [(''acc/accuracy_file'', Pickled_float 0.85)]\<rparr>"
        "0.85"
        "\<lparr>models =
            [\<lparr>reg_path = ''m/model.pt'', reg_name = ''iris-classification-pipeline'',
              reg_tags = [(''accuracy'', TStr ''0.9''), (''test_data'', TStr ''A'')],
              reg_description = ''Object recognition classifier''\<rparr>],
          services = []\<rparr>"
        "TStr ''0.9''" "TStr ''A''" "''B''" "0" "''m''" "''http://new''"]
    by (simp add: open_read_def Model_get_def model_name_def tag_get_def)
  have same: "snd (snd (deploy ''A'' ''acc'' ''m'' ''http://new''
      (\<lparr>dirs = [''m'', ''acc''], files = [(''acc/accuracy_file'', Pickled_float 0.95)]\<rparr>,
       \<lparr>models =
          [\<lparr>reg_path = ''m/model.pt'', reg_name = ''iris-classification-pipeline'',
            reg_tags = [(''accuracy'', TNum 0.90), (''test_data'', TStr ''A'')],
            reg_description = ''Object recognition classifier''\<rparr>],
        services = []\<rparr>))) =
     \<lparr>models =
          [\<lparr>reg_path = ''m/model.pt'', reg_name = ''iris-classification-pipeline'',
            reg_tags = [(''accuracy'', TNum 0.90), (''test_data'', TStr ''A'')],
            reg_description = ''Object recognition classifier''\<rparr>],
        services = []\<rparr>"
    using deploy_registers_iff [of "''acc''"
        "\<lparr>dirs = [''m'', ''acc''], files = [(''acc/accuracy_file'', Pickled_float 0.95)]\<rparr>"
        "0.95"
        "\<lparr>models =
            [\<lparr>reg_path = ''m/model.pt'', reg_name = ''iris-classification-pipeline'',
              reg_tags = [(''accuracy'', TNum 0.90), (''test_data'', TStr ''A'')],
              reg_description = ''Object recognition classifier''\<rparr>],
          services = []\<rparr>"
        "TNum 0.90" "TStr ''A''" "''A''" "0.90" "''m''" "''http://new''"]
    by (simp add: open_read_def Model_get_def model_name_def tag_get_def)
  from differs same show ?thesis by (rule conjI)
qed

text \<open>
  C2, as stated, fails. The latest registration carries the accuracy as the string
  \<open>'0.9'\<close> and the test data \<open>A\<close>; the stage is run on \<open>A\<close> with the new accuracy
  0.85, which is not an improvement. The comparison of a string with a float raises
  TypeError, which the \<open>except\<close> clause does not catch: the stage ends there, with
  nothing registered and the endpoint as it was.
\<close>

theorem deploy_string_accuracy_tag:
  "deploy ''A'' ''acc'' ''m'' ''http://new''
      (\<lparr>dirs = [''m'', ''acc''], files = [(''acc/accuracy_file'', Pickled_float 0.85)]\<rparr>,
       \<lparr>models =
          [\<lparr>reg_path = ''m/model.pt'', reg_name = ''iris-classification-pipeline'',
            reg_tags = [(''accuracy'', TStr ''0.9''), (''test_data'', TStr ''A'')],
            reg_description = ''Object recognition classifier''\<rparr>],
        services =
          [\<lparr>ws_name = ''iris-classification-service'', ws_models = [],
            ws_entry_script = ''score.py'', scoring_uri = ''http://old''\<rparr>]\<rparr>)
   = (Inl TypeError,
      \<lparr>dirs = [''m'', ''acc''], files = [(''acc/accuracy_file'', Pickled_float 0.85)]\<rparr>,
      \<lparr>models =
          [\<lparr>reg_path = ''m/model.pt'', reg_name = ''iris-classification-pipeline'',
            reg_tags = [(''accuracy'', TStr ''0.9''), (''test_data'', TStr ''A'')],
            reg_description = ''Object recognition classifier''\<rparr>],
        services =
          [\<lparr>ws_name = ''iris-classification-service'', ws_models = [],
            ws_entry_script = ''score.py'', scoring_uri = ''http://old''\<rparr>]\<rparr>)"
  by (simp add: deploy_def ensure_dir_def path_exists_def open_read_def decide_registration_def
      Model_get_def model_name_def tag_get_def Let_def)

text \<open>
  C10. \<open>register_model\<close> gives the same result whatever is passed for its \<open>output_dir\<close>
  and \<open>model_name\<close> parameters: the registration is named
  \<open>iris-classification-pipeline\<close> and points at \<open>model_dir + '/model.pt'\<close>, \<open>model_dir\<close>
  being the script's global. Every run of the Deploy stage either leaves the list of
  registrations as it was or adds one registration of exactly that name and path.
\<close>

theorem register_model_fixed_name_and_path:
  "register_model model_dir output_dir name accuracy test_dir w
     = register_model model_dir output_dir' name' accuracy test_dir w
   \<and> reg_name (fst (register_model model_dir output_dir name accuracy test_dir w))
       = ''iris-classification-pipeline''
   \<and> reg_path (fst (register_model model_dir output_dir name accuracy test_dir w))
       = model_dir @ ''/model.pt''
   \<and> models (snd (register_model model_dir output_dir name accuracy test_dir w))
       = fst (register_model model_dir output_dir name accuracy test_dir w) # models w
   \<and> (models (snd (snd (deploy test_dir accuracy_dir model_dir uri (fs, w)))) = models w
      \<or> (\<exists>a. models (snd (snd (deploy test_dir accuracy_dir model_dir uri (fs, w)))) =
              \<lparr>reg_path = model_dir @ ''/model.pt'',
               reg_name = ''iris-classification-pipeline'',
               reg_tags = [(''accuracy'', TNum a), (''test_data'', TStr test_dir)],
               reg_description = ''Object recognition classifier''\<rparr> # models w))"
proof -
  have stage: "models (snd (snd (deploy test_dir accuracy_dir model_dir uri (fs, w)))) = models w
      \<or> (\<exists>a. models (snd (snd (deploy test_dir accuracy_dir model_dir uri (fs, w)))) =
              \<lparr>reg_path = model_dir @ ''/model.pt'',
               reg_name = ''iris-classification-pipeline'',
               reg_tags = [(''accuracy'', TNum a), (''test_data'', TStr test_dir)],
               reg_description = ''Object recognition classifier''\<rparr> # models w)"
  proof (cases "\<exists>a. open_read (accuracy_dir @ ''/accuracy_file'') fs = Inr (Pickled_float a)")
    case False
    then show ?thesis
      by (simp add: deploy_workspace_unreadable)
  next
    case True
    then obtain a where a: "open_read (accuracy_dir @ ''/accuracy_file'') fs = Inr (Pickled_float a)"
      by blast
    from decide_registration_result [of model_dir test_dir a w] show ?thesis
      by (auto simp add: deploy_workspace [OF a] publish_models register_model_eq)
  qed
  show ?thesis
    using stage by (simp add: register_model_eq)
qed

section \<open>Properties of evaluate.py\<close>

text \<open>
  C3. The code departs from the claim. The script never imports \<open>os\<close>, so the line
  \<open>if not os.path.exists(accuracy_dir)\<close> raises NameError: every run of the Evaluate
  stage ends in an exception with the file system as it found it, and the accuracy file is
  never written. The second conjunct is a run in which the model and both test files load,
  prediction succeeds and the accuracy is computed.
\<close>

theorem evaluate_never_writes_accuracy:
  "(\<exists>e. evaluate model_dir test_dir accuracy_dir fs = (Inl e, fs))
   \<and> evaluate ''model'' ''test'' ''acc''
        \<lparr>dirs = [''model'', ''test''],
         files =
           [(''model/model.pt'',
               Pickled_classifier \<lparr>n_features = 4, decide = (\<lambda>_. ''Iris-setosa'')\<rparr>),
            (''test/X_test.sav'', Pickled_rows [[Num 5.1, Num 3.5, Num 1.4, Num 0.2]]),
            (''test/Y_test.sav'', Pickled_column [Str ''Iris-setosa''])]\<rparr>
     = (Inl (NameError ''os''),
        \<lparr>dirs = [''model'', ''test''],
         files =
           [(''model/model.pt'',
               Pickled_classifier \<lparr>n_features = 4, decide = (\<lambda>_. ''Iris-setosa'')\<rparr>),
            (''test/X_test.sav'', Pickled_rows [[Num 5.1, Num 3.5, Num 1.4, Num 0.2]]),
            (''test/Y_test.sav'', Pickled_column [Str ''Iris-setosa''])]\<rparr>)"
proof -
  have always: "\<exists>e. evaluate model_dir test_dir accuracy_dir fs = (Inl e, fs)"
    by (simp add: evaluate_def use_name_def evaluate_imports_def split: sum.splits)
  have once: "evaluate ''model'' ''test'' ''acc''
        \<lparr>dirs = [''model'', ''test''],
         files =
           [(''model/model.pt'',
               Pickled_classifier \<lparr>n_features = 4, decide = (\<lambda>_. ''Iris-setosa'')\<rparr>),
            (''test/X_test.sav'', Pickled_rows [[Num 5.1, Num 3.5, Num 1.4, Num 0.2]]),
            (''test/Y_test.sav'', Pickled_column [Str ''Iris-setosa''])]\<rparr>
     = (Inl (NameError ''os''),
        \<lparr>dirs = [''model'', ''test''],
         files =
           [(''model/model.pt'',
               Pickled_classifier \<lparr>n_features = 4, decide = (\<lambda>_. ''Iris-setosa'')\<rparr>),
            (''test/X_test.sav'', Pickled_rows [[Num 5.1, Num 3.5, Num 1.4, Num 0.2]]),
            (''test/Y_test.sav'', Pickled_column [Str ''Iris-setosa''])]\<rparr>)"
    by (simp add: evaluate_def use_name_def evaluate_imports_def load_classifier_def
        load_rows_def load_column_def open_read_def predict_def accuracy_score_def)
  from always once show ?thesis by (rule conjI)
qed

lemma matches_card:
  assumes "length ys = length xs"
  shows "length (filter (\<lambda>(t, p). t = p) (zip xs ys)) = card {i. i < length xs \<and> ys ! i = xs ! i}"
proof -
  have "{i. i < length (zip xs ys) \<and> (case zip xs ys ! i of (t, p) \<Rightarrow> t = p)}
        = {i. i < length xs \<and> ys ! i = xs ! i}"
    using assms by auto
  then show ?thesis
    by (simp add: length_filter_conv_card)
qed

text \<open>
  C4. For non-empty sequences of equal length the accuracy is the number of positions at
  which prediction and label agree, divided by the length: it is 1 when they agree at
  every position and 0 when they agree at none.
\<close>

theorem accuracy_score_fraction:
  assumes "y_true \<noteq> []" and "length y_pred = length y_true"
  shows "accuracy_score y_true y_pred =
           Inr (real (card {i. i < length y_true \<and> y_pred ! i = y_true ! i})
                / real (length y_true))
       \<and> ((\<forall>i < length y_true. y_pred ! i = y_true ! i)
             \<longrightarrow> accuracy_score y_true y_pred = Inr 1)
       \<and> ((\<forall>i < length y_true. y_pred ! i \<noteq> y_true ! i)
             \<longrightarrow> accuracy_score y_true y_pred = Inr 0)"
proof -
  have frac: "accuracy_score y_true y_pred =
           Inr (real (card {i. i < length y_true \<and> y_pred ! i = y_true ! i})
                / real (length y_true))"
    using assms by (simp add: accuracy_score_def matches_card)
  have all: "(\<forall>i < length y_true. y_pred ! i = y_true ! i) \<Longrightarrow>
             {i. i < length y_true \<and> y_pred ! i = y_true ! i} = {..<length y_true}"
    by auto
  have none: "(\<forall>i < length y_true. y_pred ! i \<noteq> y_true ! i) \<Longrightarrow>
             {i. i < length y_true \<and> y_pred ! i = y_true ! i} = {}"
    by auto
  show ?thesis
    using assms(1) by (auto simp add: frac all none)
qed

theorem accuracy_score_fraction_witness:
  "accuracy_score [''setosa'', ''virginica''] [''setosa'', ''virginica''] = Inr 1
   \<and> accuracy_score [''setosa'', ''virginica''] [''virginica'', ''setosa''] = Inr 0"
proof -
  have a: "\<forall>i < length [''setosa'', ''virginica''].
             [''setosa'', ''virginica''] ! i = [''setosa'', ''virginica''] ! i"
    by simp
  have b: "\<forall>i < length [''setosa'', ''virginica''].
             [''virginica'', ''setosa''] ! i \<noteq> [''setosa'', ''virginica''] ! i"
    by (simp add: less_Suc_eq nth_Cons')
  from accuracy_score_fraction [of "[''setosa'', ''virginica'']" "[''setosa'', ''virginica'']"] a
  have 1: "accuracy_score [''setosa'', ''virginica''] [''setosa'', ''virginica''] = Inr 1"
    by simp
  from accuracy_score_fraction [of "[''setosa'', ''virginica'']" "[''virginica'', ''setosa'']"] b
  have 2: "accuracy_score [''setosa'', ''virginica''] [''virginica'', ''setosa''] = Inr 0"
    by simp
  from 1 2 show ?thesis by simp
qed

section \<open>Properties of the secret-poller container\<close>

lemma open_read_write_file: "open_read p (write_file p c fs) = Inr c"
  by (simp add: open_read_def write_file_def)

lemma poll_loop_snoc: "poll_loop (ps @ [p]) fs = secret_list p (poll_loop ps fs)"
  by (induction ps arbitrary: fs) simp_all

text \<open>
  C5, as the code has it. After every poll, failed or not, the served file holds exactly
  what that poll printed on standard output; before the first poll it holds the
  placeholder line.
\<close>

theorem index_html_holds_last_stdout:
  "open_read index_html (az_container (ps @ [p]) fs) = Inr (Text (stdout p))
   \<and> open_read index_html (az_container [] fs) = Inr (Text placeholder)"
  by (simp add: az_container_def poll_loop_snoc secret_list_def redirect_def
      open_read_write_file)

text \<open>
  C5, as stated, fails: a first poll that exits with status 1 and prints nothing leaves
  the served file empty, not with the placeholder that was there before it.
\<close>

theorem failed_poll_empties_index_html:
  "exit_status \<lparr>exit_status = 1, stdout = ''''\<rparr> \<noteq> 0
   \<and> open_read index_html (az_container [] \<lparr>dirs = [''/data''], files = []\<rparr>)
       = Inr (Text placeholder)
   \<and> open_read index_html
        (az_container [\<lparr>exit_status = 1, stdout = ''''\<rparr>] \<lparr>dirs = [''/data''], files = []\<rparr>)
       = Inr (Text '''')
   \<and> Text '''' \<noteq> Text placeholder"
  by (simp add: az_container_def secret_list_def redirect_def open_read_write_file
      placeholder_def)

section \<open>Properties of preprocess.py\<close>

lemma read_each_no_records:
  "\<forall>f \<in> set fl. read_csv f = Inr [] \<or> (\<exists>e. read_csv f = Inl e) \<Longrightarrow>
   read_each read_csv fl = Inr frames \<Longrightarrow> concat frames = []"
proof (induction fl arbitrary: frames)
  case Nil
  then show ?case by simp
next
  case (Cons f rest)
  then show ?case
    by (auto split: sum.splits)
qed

lemma read_each_error:
  "read_each read_csv fl = Inl e \<Longrightarrow> \<exists>f \<in> set fl. read_csv f = Inl e"
  by (induction fl) (auto split: sum.splits)

text \<open>
  C7, as the code has it. When every path the glob finds either fails to be read or parses
  to no records (which includes the glob that finds nothing), the Preprocess stage ends in
  an exception and leaves the file system as it found it: no directory is made and no
  train or test file is written. The exception is the library's ValueError, raised by the
  empty concatenation or by the split of no samples, or else the exception that reading
  one of the paths raised.
\<close>

theorem preprocess_no_records_fails:
  assumes "\<forall>f \<in> set (glob_glob (path_join iris_data_dir ''*.csv'')).
             read_csv f = Inr [] \<or> (\<exists>e. read_csv f = Inl e)"
  shows "preprocess sh glob_glob read_csv iris_data_dir train_dir test_dir fs
           = (Inl ValueError, fs)
         \<or> (\<exists>f \<in> set (glob_glob (path_join iris_data_dir ''*.csv'')). \<exists>e.
               read_csv f = Inl e
               \<and> preprocess sh glob_glob read_csv iris_data_dir train_dir test_dir fs
                   = (Inl e, fs))"
proof (cases "read_each read_csv (glob_glob (path_join iris_data_dir ''*.csv''))")
  case (Inl e)
  then obtain f where "f \<in> set (glob_glob (path_join iris_data_dir ''*.csv''))"
    and "read_csv f = Inl e"
    using read_each_error by blast
  moreover have "preprocess sh glob_glob read_csv iris_data_dir train_dir test_dir fs
                   = (Inl e, fs)"
    using Inl by (simp add: preprocess_def)
  ultimately show ?thesis by blast
next
  case (Inr frames)
  with assms have empty: "concat frames = []"
    using read_each_no_records by blast
  have split: "train_test_split sh (map features []) (map class_of []) = Inl ValueError"
    by (simp add: train_test_split_def)
  have "preprocess sh glob_glob read_csv iris_data_dir train_dir test_dir fs
          = (Inl ValueError, fs)"
  proof (cases "frames = []")
    case True
    then show ?thesis using Inr by (simp add: preprocess_def pd_concat_def)
  next
    case False
    then have "pd_concat frames = Inr []"
      using empty by (simp add: pd_concat_def)
    then show ?thesis using Inr split by (simp add: preprocess_def)
  qed
  then show ?thesis by simp
qed

theorem preprocess_no_records_fails_witness:
  "isl (fst (preprocess
        \<lparr>test_count = (\<lambda>n. (n + 4) div 5), permutation = (\<lambda>n. rev [0..<n])\<rparr>
        (\<lambda>pattern. if pattern = ''data/*.csv'' then [''data/iris.csv''] else [])
        (\<lambda>f. if f = ''data/iris.csv'' then Inl EmptyDataError else Inl (FileNotFoundError f))
        ''data'' ''train'' ''test''
        \<lparr>dirs = [''data''], files = [(''data/iris.csv'', Text '''')]\<rparr>))
   \<and> snd (preprocess
        \<lparr>test_count = (\<lambda>n. (n + 4) div 5), permutation = (\<lambda>n. rev [0..<n])\<rparr>
        (\<lambda>pattern. if pattern = ''data/*.csv'' then [''data/iris.csv''] else [])
        (\<lambda>f. if f = ''data/iris.csv'' then Inl EmptyDataError else Inl (FileNotFoundError f))
        ''data'' ''train'' ''test''
        \<lparr>dirs = [''data''], files = [(''data/iris.csv'', Text '''')]\<rparr>)
      = \<lparr>dirs = [''data''], files = [(''data/iris.csv'', Text '''')]\<rparr>"
  using preprocess_no_records_fails
    [of "\<lambda>pattern. if pattern = ''data/*.csv'' then [''data/iris.csv''] else []"
        "''data''"
        "\<lambda>f. if f = ''data/iris.csv'' then Inl EmptyDataError else Inl (FileNotFoundError f)"
        "\<lparr>test_count = (\<lambda>n. (n + 4) div 5), permutation = (\<lambda>n. rev [0..<n])\<rparr>"
        "''train''" "''test''"
        "\<lparr>dirs = [''data''], files = [(''data/iris.csv'', Text '''')]\<rparr>"]
  by (auto simp add: path_join_def)

text \<open>
  C7, as stated, fails. The directory \<open>data\<close> holds no \<open>.csv\<close> file, so the glob finds
  nothing. The stage ends before any output is written, but the exception is the
  ValueError that \<open>pd.concat\<close> raises for an empty sequence, not a FormatError.
\<close>

theorem preprocess_raises_ValueError:
  "preprocess \<lparr>test_count = (\<lambda>n. (n + 4) div 5), permutation = (\<lambda>n. rev [0..<n])\<rparr>
        (\<lambda>pattern. []) (\<lambda>f. Inl (FileNotFoundError f)) ''data'' ''train'' ''test''
        \<lparr>dirs = [''data''], files = [(''data/notes.txt'', Text ''n'')]\<rparr>
      = (Inl ValueError, \<lparr>dirs = [''data''], files = [(''data/notes.txt'', Text ''n'')]\<rparr>)
   \<and> fst (preprocess \<lparr>test_count = (\<lambda>n. (n + 4) div 5), permutation = (\<lambda>n. rev [0..<n])\<rparr>
        (\<lambda>pattern. []) (\<lambda>f. Inl (FileNotFoundError f)) ''data'' ''train'' ''test''
        \<lparr>dirs = [''data''], files = [(''data/notes.txt'', Text ''n'')]\<rparr>)
      \<noteq> Inl FormatError"
  by (simp add: preprocess_def pd_concat_def)

section \<open>Properties of score.py\<close>

lemma those_map_Num: "those (map (number \<circ> Num) v) = Some v"
  by (induction v) simp_all

lemma predict_plain_row:
  "length v = n_features m \<Longrightarrow> 0 < n_features m \<Longrightarrow> predict m [map Num v] = Inr [decide m v]"
  by (simp add: predict_def those_map_Num)

lemma plain_number_small: "\<bar>r\<bar> \<le> 10 \<Longrightarrow> plain_number (JFloat r) = Some r"
proof -
  have "(10 :: real) \<le> double_max"
    by (simp add: double_max_def)
  then show "\<bar>r\<bar> \<le> 10 \<Longrightarrow> plain_number (JFloat r) = Some r"
    by simp
qed

lemma those_length: "those xs = Some ys \<Longrightarrow> length ys = length xs"
  by (induction xs arbitrary: ys) (auto split: option.splits)

text \<open>
  C8, as the code has it. With the model loaded, a body that parses to an object whose
  \<open>data\<close> is a non-empty list of plain numbers, as many as the model has features, is
  answered with a list holding the one predicted label. A body that does not parse ends the call with
  the parser's exception, which nothing in the script catches or turns into a response;
  the module's globals are as they were, and the requests served after it get the answers
  they would have got without it.
\<close>

theorem run_contract:
  "(global_model g = Some m \<and> json_loads raw = Some (JObj kvs)
      \<and> map_of (rev kvs) ''data'' = Some (JArr js)
      \<and> those (map plain_number js) = Some v \<and> length js = n_features m \<and> js \<noteq> []
     \<longrightarrow> run json_loads other g raw = (Inr [decide m v], g))
   \<and> (json_loads bad = None
     \<longrightarrow> run json_loads other g bad = (Inl JSONDecodeError, g)
         \<and> serve json_loads other g (bad # rs)
             = (Inl JSONDecodeError # fst (serve json_loads other g rs),
                snd (serve json_loads other g rs)))"
proof -
  have good: "run json_loads other g raw = (Inr [decide m v], g)"
    if "global_model g = Some m" and "json_loads raw = Some (JObj kvs)"
      and "map_of (rev kvs) ''data'' = Some (JArr js)"
      and row: "those (map plain_number js) = Some v" and "length js = n_features m"
      and "js \<noteq> []"
  proof -
    from row have "length v = length js"
      using those_length by fastforce
    moreover from that have "0 < n_features m"
      by (cases js) auto
    ultimately have "predict m [map Num v] = Inr [decide m v]"
      using that by (simp add: predict_plain_row)
    with that show ?thesis
      by (simp add: run_def)
  qed
  have bad: "run json_loads other g bad = (Inl JSONDecodeError, g)" if "json_loads bad = None"
    using that by (simp add: run_def)
  show ?thesis
    using good bad by (auto split: prod.splits)
qed

theorem run_contract_witness:
  "(let body = ''{'' @ [CHR 0x22] @ ''data'' @ [CHR 0x22] @ '': [6.7, 3, 5.2, 2.3]}'';
        cut = ''{'' @ [CHR 0x22] @ ''data'' @ [CHR 0x22] @ '': [6.7, '';
        loads = (\<lambda>s. if s = body
                      then Some (JObj [(''data'', JArr [JFloat 6.7, JInt 3, JFloat 5.2, JFloat 2.3])])
                      else None);
        other = (\<lambda>model payload. Inl ValueError);
        g = \<lparr>global_model = Some \<lparr>n_features = 4, decide = (\<lambda>_. ''Iris-virginica'')\<rparr>\<rparr>
    in run loads other g body = (Inr [''Iris-virginica''], g)
       \<and> run loads other g cut = (Inl JSONDecodeError, g)
       \<and> serve loads other g [cut, body] = ([Inl JSONDecodeError, Inr [''Iris-virginica'']], g))"
proof -
  have row: "those (map plain_number [JFloat 6.7, JInt 3, JFloat 5.2, JFloat 2.3])
               = Some [6.7, 3, 5.2, 2.3]"
    by (simp add: plain_number_small del: plain_number.simps(1))
  show ?thesis
    using row run_contract
      [of "\<lparr>global_model = Some \<lparr>n_features = 4, decide = (\<lambda>_. ''Iris-virginica'')\<rparr>\<rparr>"
          "\<lparr>n_features = 4, decide = (\<lambda>_. ''Iris-virginica'')\<rparr>"
          "\<lambda>s. if s = ''{'' @ [CHR 0x22] @ ''data'' @ [CHR 0x22] @ '': [6.7, 3, 5.2, 2.3]}''
              then Some (JObj [(''data'', JArr [JFloat 6.7, JInt 3, JFloat 5.2, JFloat 2.3])])
              else None"
          "''{'' @ [CHR 0x22] @ ''data'' @ [CHR 0x22] @ '': [6.7, 3, 5.2, 2.3]}''"
          "[(''data'', JArr [JFloat 6.7, JInt 3, JFloat 5.2, JFloat 2.3])]"
          "[JFloat 6.7, JInt 3, JFloat 5.2, JFloat 2.3]"
          "[6.7, 3, 5.2, 2.3]"
          "\<lambda>model payload. Inl ValueError"
          "''{'' @ [CHR 0x22] @ ''data'' @ [CHR 0x22] @ '': [6.7, ''"
          "[''{'' @ [CHR 0x22] @ ''data'' @ [CHR 0x22] @ '': [6.7, 3, 5.2, 2.3]}'']"]
    by (simp add: Let_def del: plain_number.simps split: prod.splits)
qed

text \<open>
  C8, as stated, fails. The body is cut off after the first number and is not JSON. The
  call does not return an error response: it ends with the parser's exception, uncaught.
\<close>

theorem run_raises_on_malformed_body:
  "run (\<lambda>s. if s = ''{'' @ [CHR 0x22] @ ''data'' @ [CHR 0x22] @ '': [6.7, 3, 5.2, 2.3]}''
            then Some (JObj [(''data'', JArr [JFloat 6.7, JInt 3, JFloat 5.2, JFloat 2.3])])
            else None)
       (\<lambda>model payload. Inl ValueError)
       \<lparr>global_model = Some \<lparr>n_features = 4, decide = (\<lambda>_. ''Iris-virginica'')\<rparr>\<rparr>
       (''{'' @ [CHR 0x22] @ ''data'' @ [CHR 0x22] @ '': [6.7, '')
   = (Inl JSONDecodeError,
      \<lparr>global_model = Some \<lparr>n_features = 4, decide = (\<lambda>_. ''Iris-virginica'')\<rparr>\<rparr>)"
  by (simp add: run_def)

section \<open>Properties of the runs of the pipeline\<close>

lemma set_steps: "set steps = UNIV"
proof -
  have "s \<in> set steps" for s
    by (cases s) (simp_all add: steps_def)
  then show ?thesis by auto
qed

lemma ready_iff:
  "ready \<sigma> s = (\<forall>t. depends_on s t \<longrightarrow> \<sigma> t = Succeeded \<or> \<sigma> t = Reused)"
  by (auto simp add: ready_def list_all_iff set_steps)

lemma producers_doneD:
  "producers_done \<sigma> \<Longrightarrow> \<sigma> s \<noteq> Pending \<Longrightarrow> depends_on s t \<Longrightarrow> \<sigma> t = Succeeded \<or> \<sigma> t = Reused"
  by (simp add: producers_done_def)

lemma fire_cases:
  assumes "fire e \<sigma> = Some \<sigma>'"
  obtains s x where "\<sigma>' = \<sigma>(s := x)" and "\<sigma> s = Pending \<or> \<sigma> s = Running"
    and "\<sigma> s = Pending \<longrightarrow> ready \<sigma> s"
  using assms by (cases e) (auto split: if_splits)

lemma fire_producers_done:
  assumes inv: "producers_done \<sigma>" and step: "fire e \<sigma> = Some \<sigma>'"
  shows "producers_done \<sigma>'"
proof -
  from step obtain s x where upd: "\<sigma>' = \<sigma>(s := x)"
    and was: "\<sigma> s = Pending \<or> \<sigma> s = Running"
    and rdy: "\<sigma> s = Pending \<longrightarrow> ready \<sigma> s"
    by (rule fire_cases)
  have "\<sigma>' t = Succeeded \<or> \<sigma>' t = Reused" if u: "\<sigma>' u \<noteq> Pending" and d: "depends_on u t" for u t
  proof -
    have old: "\<sigma> t = Succeeded \<or> \<sigma> t = Reused"
    proof (cases "u = s \<and> \<sigma> s = Pending")
      case True
      with rdy d show ?thesis by (simp add: ready_iff)
    next
      case False
      with u upd have "\<sigma> u \<noteq> Pending" by (auto split: if_splits)
      with inv d show ?thesis by (blast dest: producers_doneD)
    qed
    with was have "t \<noteq> s" by auto
    with old upd show ?thesis by simp
  qed
  then show ?thesis by (simp add: producers_done_def)
qed

lemma run_events_producers_done:
  "producers_done \<sigma> \<Longrightarrow> run_events es \<sigma> = Some \<sigma>' \<Longrightarrow> producers_done \<sigma>'"
proof (induction es arbitrary: \<sigma>)
  case Nil
  then show ?case by simp
next
  case (Cons e es)
  then show ?case
    by (auto split: option.splits dest: fire_producers_done)
qed

lemma fire_failed_stays: "fire e \<sigma> = Some \<sigma>' \<Longrightarrow> \<sigma> t = Failed \<Longrightarrow> \<sigma>' t = Failed"
  by (cases e) (auto split: if_splits)

lemma run_events_failed_stays:
  "run_events es \<sigma> = Some \<sigma>' \<Longrightarrow> \<sigma> t = Failed \<Longrightarrow> \<sigma>' t = Failed"
proof (induction es arbitrary: \<sigma>)
  case Nil
  then show ?case by simp
next
  case (Cons e es)
  then show ?case
    by (auto split: option.splits dest: fire_failed_stays)
qed

lemma run_events_append:
  "run_events es \<sigma> = Some \<sigma>' \<Longrightarrow> run_events (es @ es') \<sigma> = run_events es' \<sigma>'"
  by (induction es arbitrary: \<sigma>) (auto split: option.splits)

lemma dependents_pending:
  assumes "depends_on\<^sup>+\<^sup>+ s t" and "producers_done \<sigma>" and "\<sigma> t = Failed"
  shows "\<sigma> s = Pending"
  using assms
proof (induction rule: converse_tranclp_induct)
  case (base y)
  then show ?case using producers_doneD [of \<sigma> y t] by auto
next
  case (step y z)
  then show ?case using producers_doneD [of \<sigma> y z] by auto
qed

text \<open>
  C9. In every state a run of the five-stage pipeline can reach, a stage that reads,
  directly or through other stages, what a failed stage was to produce is still pending;
  and however the run goes on from there, the failed stage stays failed and that stage
  stays pending: it is never started and never reused.
\<close>

theorem failed_stage_blocks_dependents:
  assumes "run_events es submitted = Some \<sigma>"
    and "\<sigma> t = Failed"
    and "depends_on\<^sup>+\<^sup>+ s t"
    and "run_events es' \<sigma> = Some \<sigma>'"
  shows "\<sigma> s = Pending \<and> \<sigma>' s = Pending \<and> \<sigma>' t = Failed"
proof -
  have start: "producers_done submitted"
    by (simp add: producers_done_def submitted_def)
  have now: "producers_done \<sigma>"
    using start assms(1) by (rule run_events_producers_done)
  have later: "producers_done \<sigma>'"
    using now assms(4) by (rule run_events_producers_done)
  have failed: "\<sigma>' t = Failed"
    using assms(4) assms(2) by (rule run_events_failed_stays)
  show ?thesis
    using dependents_pending [OF assms(3) now assms(2)]
      dependents_pending [OF assms(3) later failed] failed
    by simp
qed

theorem failed_stage_blocks_dependents_witness:
  "run_events [Start Ingest, Succeed Ingest, Start Preprocess, Succeed Preprocess, Start Train, Fail Train]
      submitted
     = Some (submitted(Ingest := Succeeded, Preprocess := Succeeded, Train := Failed))
   \<and> depends_on\<^sup>+\<^sup>+ Deploy Train
   \<and> (submitted(Ingest := Succeeded, Preprocess := Succeeded, Train := Failed)) Deploy = Pending
   \<and> fire (Start Deploy) (submitted(Ingest := Succeeded, Preprocess := Succeeded, Train := Failed)) = None
   \<and> fire (Start Evaluate) (submitted(Ingest := Succeeded, Preprocess := Succeeded, Train := Failed)) = None"
proof -
  have run: "run_events [Start Ingest, Succeed Ingest, Start Preprocess, Succeed Preprocess, Start Train, Fail Train]
      submitted
     = Some (submitted(Ingest := Succeeded, Preprocess := Succeeded, Train := Failed))"
    by (simp add: submitted_def ready_def depends_on_def steps_def fun_upd_twist)
  have failed: "(submitted(Ingest := Succeeded, Preprocess := Succeeded, Train := Failed)) Train = Failed"
    by simp
  have "depends_on Deploy Evaluate" "depends_on Evaluate Train"
    by (simp_all add: depends_on_def)
  then have dep: "depends_on\<^sup>+\<^sup>+ Deploy Train"
    by (rule tranclp.trancl_into_trancl [OF tranclp.r_into_trancl])
  have stay: "run_events [] (submitted(Ingest := Succeeded, Preprocess := Succeeded, Train := Failed))
     = Some (submitted(Ingest := Succeeded, Preprocess := Succeeded, Train := Failed))"
    by simp
  have blocked: "fire (Start Deploy) (submitted(Ingest := Succeeded, Preprocess := Succeeded, Train := Failed)) = None"
    "fire (Start Evaluate) (submitted(Ingest := Succeeded, Preprocess := Succeeded, Train := Failed)) = None"
    by (simp_all add: submitted_def ready_def depends_on_def steps_def)
  from failed_stage_blocks_dependents [OF run failed dep stay] run dep blocked
  show ?thesis by simp
qed

end
